theory Spec2Isabelle
  imports Complex_Main
begin

section \<open>JavaScript numbers\<close>

text \<open>
  The numeric code of the repository works on JavaScript numbers. They are modelled as
  real numbers: every finite double is a real, and the arithmetic is taken without the
  rounding error of the floating-point operations. \<open>Math.max\<close>, \<open>Math.min\<close> and
  \<open>Math.abs\<close> are \<open>max\<close>, \<open>min\<close> and \<open>abs\<close>. \<open>Math.round\<close> rounds
  to the nearest integer and a tie goes up (towards plus infinity), for negative
  arguments as well.
\<close>

type_synonym number = real

definition Math_round :: "number \<Rightarrow> number" where
  "Math_round v = of_int \<lfloor>v + 1 / 2\<rfloor>"

section \<open>shared/schema.ts: the data model\<close>

datatype Gender = male | female

record Box =
  box_x :: number
  box_y :: number
  box_width :: number
  box_height :: number

record Point =
  point_x :: number
  point_y :: number

text \<open>
  \<open>interface FaceDetectionResult\<close>. The field \<open>id\<close> is named \<open>face_id\<close> here
  (\<open>id\<close> is the identity function of HOL); \<open>landmarks?\<close> is optional.
\<close>

record FaceDetectionResult =
  face_id :: string
  box :: Box
  age :: number
  ageConfidence :: number
  gender :: Gender
  genderConfidence :: number
  landmarks :: "Point list option"

section \<open>hooks/use-face-api.ts: the age-confidence curve\<close>

text \<open>
  \<open>const ageConfidence = Math.min(95, Math.max(70, 90 - Math.abs(age - 30) * 0.5))\<close>,
  written out twice in \<open>detectFaces\<close> (for the initial detection and for the averaged
  age); the stored field is \<open>Math.round(ageConfidence)\<close>.
\<close>

definition ageConfidence_curve :: "number \<Rightarrow> number" where
  "ageConfidence_curve a = min 95 (max 70 (90 - \<bar>a - 30\<bar> * (1 / 2)))"

section \<open>lib/face-api-utils.ts: calculateAnalysisStats\<close>

record AnalysisStats =
  totalFaces :: nat
  avgConfidence :: number

text \<open>
  \<open>faces.reduce((sum, face) => sum + Math.round((face.ageConfidence +
  face.genderConfidence) / 2), 0)\<close>: a left fold from 0. The two string fields of the
  result (\<open>processingTime\<close>, \<open>imageSize\<close>) are formatting only and are left out.
\<close>

definition combined :: "FaceDetectionResult \<Rightarrow> number" where
  "combined face = Math_round ((ageConfidence face + genderConfidence face) / 2)"

definition calculateAnalysisStats :: "FaceDetectionResult list \<Rightarrow> AnalysisStats" where
  "calculateAnalysisStats faces =
     (let n = length faces
      in \<lparr>totalFaces = n,
          avgConfidence =
            (if n > 0
             then Math_round (foldl (\<lambda>sum face. sum + combined face) 0 faces / real n)
             else 0)\<rparr>)"

text \<open>
  The file holds an earlier variant of the same function as well, which adds the
  unrounded halves \<open>(face.ageConfidence + face.genderConfidence) / 2\<close> and rounds only
  the mean.
\<close>

definition calculateAnalysisStats_earlier :: "FaceDetectionResult list \<Rightarrow> AnalysisStats" where
  "calculateAnalysisStats_earlier faces =
     (let n = length faces
      in \<lparr>totalFaces = n,
          avgConfidence =
            (if n > 0
             then Math_round
               (foldl (\<lambda>sum face. sum + (ageConfidence face + genderConfidence face) / 2) 0 faces
                 / real n)
             else 0)\<rparr>)"

section \<open>hooks/use-face-api.ts: detectFaces\<close>

subsection \<open>What the function receives\<close>

text \<open>
  The \<open>HTMLImageElement\<close>: its natural size and its \<open>width\<close>/\<open>height\<close>
  attributes, non-negative integers.
\<close>

record HTMLImageElement =
  naturalWidth :: nat
  naturalHeight :: nat
  img_width :: nat
  img_height :: nat

text \<open>
  One result of face-api.js (\<open>detectAllFaces(...).withFaceLandmarks().withAgeAndGender()\<close>,
  or \<open>detectSingleFace\<close> with the same two stages): \<open>detection.box\<close>, \<open>age\<close>,
  \<open>gender\<close>, \<open>genderProbability\<close> (read with \<open>?? 0\<close>, so it may be missing) and
  \<open>landmarks.positions\<close>.
\<close>

record Detection =
  detection_box :: Box
  detection_age :: number
  detection_gender :: Gender
  genderProbability :: "number option"
  landmarks_positions :: "Point list"

text \<open>An awaited call either resolves to a value or rejects (the \<open>await\<close> throws).\<close>

datatype 'a Promise = Rejected | Resolved 'a

record Canvas =
  canvas_width :: number
  canvas_height :: number

text \<open>The rounded crop rectangle \<open>{x, y, w, h}\<close> of the ensemble.\<close>

record Crop =
  crop_x :: number
  crop_y :: number
  crop_w :: number
  crop_h :: number

text \<open>
  Everything outside the function that its result depends on: the hook's \<open>isLoaded\<close>
  state, whether \<open>canvas.getContext('2d')\<close> returns a context, what the model finds
  on the detection canvas, and what it finds on the crop cut out of that canvas at a
  given rectangle.
\<close>

record Environment =
  isLoaded :: bool
  getContext :: bool
  detectAllFaces :: "Detection list Promise"
  detectSingleFace :: "Crop \<Rightarrow> Detection option Promise"

datatype Error = Error string

subsection \<open>The detection canvas\<close>

definition targetWidth :: number where
  "targetWidth = 1024"

text \<open>\<open>imageElement.naturalWidth || imageElement.width\<close>: 0 is falsy.\<close>

definition naturalW :: "HTMLImageElement \<Rightarrow> number" where
  "naturalW imageElement =
     (if naturalWidth imageElement \<noteq> 0 then real (naturalWidth imageElement)
      else real (img_width imageElement))"

definition naturalH :: "HTMLImageElement \<Rightarrow> number" where
  "naturalH imageElement =
     (if naturalHeight imageElement \<noteq> 0 then real (naturalHeight imageElement)
      else real (img_height imageElement))"

definition scale :: "HTMLImageElement \<Rightarrow> number" where
  "scale imageElement = max 1 (targetWidth / max 1 (naturalW imageElement))"

definition canvas :: "HTMLImageElement \<Rightarrow> Canvas" where
  "canvas imageElement =
     \<lparr>canvas_width = Math_round (naturalW imageElement * scale imageElement),
      canvas_height = Math_round (naturalH imageElement * scale imageElement)\<rparr>"

definition invScale :: "HTMLImageElement \<Rightarrow> number" where
  "invScale imageElement = 1 / scale imageElement"

subsection \<open>The initial results\<close>

text \<open>The template string \<open>`face-${index + 1}`\<close> needs the decimal digits of a number.\<close>

function string_of_nat :: "nat \<Rightarrow> string" where
  "string_of_nat n =
     (if n < 10 then [''0123456789'' ! n]
      else string_of_nat (n div 10) @ [''0123456789'' ! (n mod 10)])"
  by pat_completeness auto
termination
  by (relation "measure (\<lambda>n. n)") auto

declare string_of_nat.simps [simp del]

text \<open>
  The objects of \<open>initialResults\<close>: the result fields, with \<open>box\<close> and
  \<open>landmarks\<close> mapped back to the original image, the unrounded \<open>age\<close>, and
  \<open>rawBox\<close>, the box in the coordinates of the detection canvas.
\<close>

record InitialResult =
  r_id :: string
  r_box :: Box
  rawBox :: Box
  r_age :: number
  r_ageConfidence :: number
  r_gender :: Gender
  r_genderConfidence :: number
  r_landmarks :: "Point list"

definition initialResult :: "number \<Rightarrow> nat \<Rightarrow> Detection \<Rightarrow> InitialResult" where
  "initialResult invS index detection =
     (let b = detection_box detection;
          ageConf = ageConfidence_curve (detection_age detection);
          genderConf =
            Math_round ((case genderProbability detection of None \<Rightarrow> 0 | Some p \<Rightarrow> p) * 100)
      in \<lparr>r_id = ''face-'' @ string_of_nat (index + 1),
          r_box = \<lparr>box_x = box_x b * invS, box_y = box_y b * invS,
                   box_width = box_width b * invS, box_height = box_height b * invS\<rparr>,
          rawBox = \<lparr>box_x = box_x b, box_y = box_y b,
                    box_width = box_width b, box_height = box_height b\<rparr>,
          r_age = detection_age detection,
          r_ageConfidence = Math_round ageConf,
          r_gender = detection_gender detection,
          r_genderConfidence = genderConf,
          r_landmarks =
            map (\<lambda>point. \<lparr>point_x = point_x point * invS, point_y = point_y point * invS\<rparr>)
              (landmarks_positions detection)\<rparr>)"

definition initialResults :: "number \<Rightarrow> Detection list \<Rightarrow> InitialResult list" where
  "initialResults invS detections =
     map (\<lambda>(index, detection). initialResult invS index detection) (enumerate 0 detections)"

text \<open>Without the ensemble (\<open>!useEnsemble\<close>) each initial result is finalized as it is.\<close>

definition finalize :: "InitialResult \<Rightarrow> FaceDetectionResult" where
  "finalize r =
     \<lparr>face_id = r_id r,
      box = r_box r,
      age = Math_round (r_age r),
      ageConfidence = r_ageConfidence r,
      gender = r_gender r,
      genderConfidence = r_genderConfidence r,
      landmarks = Some (r_landmarks r)\<rparr>"

subsection \<open>The ensemble\<close>

text \<open>
  The crop of one padding: the clamped rectangle \<open>cx, cy, cw, ch\<close> first, then its
  four numbers rounded one by one.
\<close>

definition crop_clamped :: "Canvas \<Rightarrow> InitialResult \<Rightarrow> number \<Rightarrow> number \<times> number \<times> number \<times> number" where
  "crop_clamped cv r pad =
     (let cx = max 0 (box_x (rawBox r) - box_width (rawBox r) * pad);
          cy = max 0 (box_y (rawBox r) - box_height (rawBox r) * pad);
          cw = min (canvas_width cv - cx) (box_width (rawBox r) * (1 + pad * 2));
          ch = min (canvas_height cv - cy) (box_height (rawBox r) * (1 + pad * 2))
      in (cx, cy, cw, ch))"

definition crop :: "Canvas \<Rightarrow> InitialResult \<Rightarrow> number \<Rightarrow> Crop" where
  "crop cv r pad =
     (case crop_clamped cv r pad of
        (cx, cy, cw, ch) \<Rightarrow>
          \<lparr>crop_x = Math_round cx, crop_y = Math_round cy,
           crop_w = Math_round cw, crop_h = Math_round ch\<rparr>)"

definition crops :: "Canvas \<Rightarrow> InitialResult \<Rightarrow> Crop list" where
  "crops cv r = map (crop cv r) [1 / 10, 25 / 100, 45 / 100]"

text \<open>The prediction kept from a crop: \<open>{age, gender, genderProbability ?? 0}\<close>.\<close>

record Pred =
  p_age :: number
  p_gender :: Gender
  p_genderProbability :: number

definition pred_of :: "Detection \<Rightarrow> Pred" where
  "pred_of res =
     \<lparr>p_age = detection_age res,
      p_gender = detection_gender res,
      p_genderProbability = (case genderProbability res of None \<Rightarrow> 0 | Some p \<Rightarrow> p)\<rparr>"

text \<open>\<open>Promise.all\<close> resolves to all the values, or rejects when one of the promises does.\<close>

fun Promise_all :: "'a Promise list \<Rightarrow> 'a list Promise" where
  "Promise_all [] = Resolved []"
| "Promise_all (Rejected # ps) = Rejected"
| "Promise_all (Resolved v # ps) =
     (case Promise_all ps of Rejected \<Rightarrow> Rejected | Resolved vs \<Rightarrow> Resolved (v # vs))"

text \<open>\<open>if (!res) return null; return {...}\<close> for each crop, all three awaited together.\<close>

definition preds :: "Environment \<Rightarrow> Canvas \<Rightarrow> InitialResult \<Rightarrow> Pred option list Promise" where
  "preds env cv r =
     Promise_all
       (map (\<lambda>c. case detectSingleFace env c of
                    Rejected \<Rightarrow> Rejected
                  | Resolved res \<Rightarrow> Resolved (map_option pred_of res))
          (crops cv r))"

text \<open>\<open>preds.filter(Boolean)\<close>: \<open>null\<close> is dropped, an object is kept.\<close>

fun filter_Boolean :: "'a option list \<Rightarrow> 'a list" where
  "filter_Boolean [] = []"
| "filter_Boolean (None # ps) = filter_Boolean ps"
| "filter_Boolean (Some p # ps) = p # filter_Boolean ps"

text \<open>
  The body of the loop after the predictions have arrived: the fallback when no crop
  gave one, the averages otherwise. \<open>reduce\<close> is a left fold from 0.
\<close>

definition ensembleResult :: "InitialResult \<Rightarrow> Pred option list \<Rightarrow> FaceDetectionResult" where
  "ensembleResult r ps =
     (let valid = filter_Boolean ps
      in if length valid = 0
         then \<lparr>face_id = r_id r,
               box = r_box r,
               age = Math_round (r_age r),
               ageConfidence = r_ageConfidence r,
               gender = r_gender r,
               genderConfidence = r_genderConfidence r,
               landmarks = Some (r_landmarks r)\<rparr>
         else
           (let avgAge = foldl (\<lambda>s p. s + p_age p) 0 valid / real (length valid);
                avgGenderProb =
                  foldl (\<lambda>s p. s + p_genderProbability p) 0 valid / real (length valid);
                avgGenderConfidence = Math_round (avgGenderProb * 100);
                ageConf = ageConfidence_curve avgAge
            in \<lparr>face_id = r_id r,
                box = r_box r,
                age = Math_round avgAge,
                ageConfidence = Math_round ageConf,
                gender = p_gender (valid ! 0),
                genderConfidence = avgGenderConfidence,
                landmarks = Some (r_landmarks r)\<rparr>))"

text \<open>\<open>for (const r of initialResults)\<close>: one face after the other, in order.\<close>

fun ensembleResults ::
  "Environment \<Rightarrow> Canvas \<Rightarrow> InitialResult list \<Rightarrow> FaceDetectionResult list Promise" where
  "ensembleResults env cv [] = Resolved []"
| "ensembleResults env cv (r # rs) =
     (case preds env cv r of
        Rejected \<Rightarrow> Rejected
      | Resolved ps \<Rightarrow>
          (case ensembleResults env cv rs of
             Rejected \<Rightarrow> Rejected
           | Resolved out \<Rightarrow> Resolved (ensembleResult r ps # out)))"

subsection \<open>The function\<close>

text \<open>
  The first \<open>throw\<close> is outside the \<open>try\<close>; everything thrown inside it (no
  context, a rejected model call) is caught and thrown again as the second error.
\<close>

definition detectFaces ::
  "Environment \<Rightarrow> HTMLImageElement \<Rightarrow> bool \<Rightarrow> Error + FaceDetectionResult list" where
  "detectFaces env imageElement useEnsemble =
     (if \<not> isLoaded env then Inl (Error ''Face-API models not loaded yet'')
      else if \<not> getContext env then Inl (Error ''Failed to analyze faces in the image'')
      else
        (case detectAllFaces env of
           Rejected \<Rightarrow> Inl (Error ''Failed to analyze faces in the image'')
         | Resolved detections \<Rightarrow>
             (let rs = initialResults (invScale imageElement) detections
              in if \<not> useEnsemble then Inr (map finalize rs)
                 else
                   (case ensembleResults env (canvas imageElement) rs of
                      Rejected \<Rightarrow> Inl (Error ''Failed to analyze faces in the image'')
                    | Resolved out \<Rightarrow> Inr out))))"

section \<open>shared/schema.ts: the analysis records\<close>

record ImageDimensions =
  dim_width :: number
  dim_height :: number

text \<open>
  \<open>InsertFaceAnalysis\<close> is the table row without \<open>id\<close> and
  \<open>analysisTimestamp\<close>; \<open>FaceAnalysis\<close> is the whole row. \<open>processingTime\<close> is
  a nullable text column. The timestamp is a \<open>Date\<close>, held as its \<open>getTime()\<close>.
\<close>

record InsertFaceAnalysis =
  imageFileName :: string
  imageDimensions :: ImageDimensions
  detectedFaces :: "FaceDetectionResult list"
  processingTime :: "string option"

record FaceAnalysis = InsertFaceAnalysis +
  analysis_id :: string
  analysisTimestamp :: int

section \<open>What the routes take from JavaScript\<close>

text \<open>
  The \<open>limit\<close> of the list route is the result of \<open>parseInt\<close>: an integer or
  \<open>NaN\<close>.
\<close>

datatype JSNumber = NaN | Num int

text \<open>
  \<open>parseInt(string)\<close> without a radix, after ECMAScript: leading white space is
  skipped, a sign is read, a prefix \<open>0x\<close> or \<open>0X\<close> selects radix 16 and the radix is
  10 otherwise, and the longest run of digits of that radix is the value; no digit at all
  gives \<open>NaN\<close>. Strings are byte strings here, so the white space is the ASCII white
  space, and the value is not rounded to a double.
\<close>

definition isWhiteSpace :: "char \<Rightarrow> bool" where
  "isWhiteSpace c = (c \<in> set [CHR 0x20, CHR 0x09, CHR 0x0A, CHR 0x0B, CHR 0x0C, CHR 0x0D])"

fun index_of :: "'a \<Rightarrow> 'a list \<Rightarrow> nat option" where
  "index_of c [] = None"
| "index_of c (d # ds) = (if c = d then Some 0 else map_option Suc (index_of c ds))"

definition digitValue :: "char \<Rightarrow> nat option" where
  "digitValue c =
     (case index_of c ''0123456789abcdefghijklmnopqrstuvwxyz'' of
        Some v \<Rightarrow> Some v
      | None \<Rightarrow> map_option (\<lambda>v. v + 10) (index_of c ''ABCDEFGHIJKLMNOPQRSTUVWXYZ''))"

definition isRadixDigit :: "nat \<Rightarrow> char \<Rightarrow> bool" where
  "isRadixDigit R c = (case digitValue c of None \<Rightarrow> False | Some v \<Rightarrow> v < R)"

definition parseInt :: "string \<Rightarrow> JSNumber" where
  "parseInt inputString =
     (let S = dropWhile isWhiteSpace inputString;
          sign = (if S \<noteq> [] \<and> hd S = CHR ''-'' then - 1 else 1 :: int);
          S1 = (if S \<noteq> [] \<and> (hd S = CHR ''+'' \<or> hd S = CHR ''-'') then tl S else S);
          stripPrefix = (take 2 S1 = ''0x'' \<or> take 2 S1 = ''0X'');
          R = (if stripPrefix then 16 else 10 :: nat);
          S2 = (if stripPrefix then drop 2 S1 else S1);
          Z = takeWhile (isRadixDigit R) S2
      in if Z = [] then NaN
         else Num (sign * int (foldl (\<lambda>n c. n * R + the (digitValue c)) 0 Z)))"

text \<open>
  \<open>xs.slice(0, end)\<close>: \<open>NaN\<close> counts as 0, a negative end counts from the
  length, and the end is cut at the length.
\<close>

definition slice0 :: "'a list \<Rightarrow> JSNumber \<Rightarrow> 'a list" where
  "slice0 xs e =
     (let len = int (length xs);
          relativeEnd = (case e of NaN \<Rightarrow> 0 | Num k \<Rightarrow> k);
          final = (if relativeEnd < 0 then max (len + relativeEnd) 0 else min relativeEnd len)
      in take (nat final) xs)"

text \<open>
  A JavaScript \<open>Map\<close> keeps its entries in insertion order: \<open>set\<close> replaces the
  value of a key that is there, in place, and appends a new key at the end.
\<close>

fun Map_set :: "'k \<Rightarrow> 'v \<Rightarrow> ('k \<times> 'v) list \<Rightarrow> ('k \<times> 'v) list" where
  "Map_set k v [] = [(k, v)]"
| "Map_set k v ((k', v') # m) = (if k = k' then (k, v) # m else (k', v') # Map_set k v m)"

section \<open>server/storage.ts: MemStorage\<close>

text \<open>
  The \<open>analyses\<close> map of the class (its \<open>users\<close> map plays no part in the
  analysis routes). \<open>randomUUID()\<close> and \<open>new Date()\<close> are read from outside:
  \<open>createFaceAnalysis\<close> takes their values as \<open>uuid\<close> and \<open>now\<close>.
  \<open>analysis.processingTime || null\<close> turns a missing and an empty string into
  \<open>null\<close>.
\<close>

record MemStorage =
  analyses :: "(string \<times> FaceAnalysis) list"

definition MemStorage_createFaceAnalysis ::
  "string \<Rightarrow> int \<Rightarrow> MemStorage \<Rightarrow> InsertFaceAnalysis \<Rightarrow> MemStorage \<times> FaceAnalysis" where
  "MemStorage_createFaceAnalysis uuid now this analysis =
     (let faceAnalysis =
            \<lparr>imageFileName = imageFileName analysis,
             imageDimensions = imageDimensions analysis,
             detectedFaces = detectedFaces analysis,
             processingTime =
               (case processingTime analysis of
                  None \<Rightarrow> None
                | Some t \<Rightarrow> if t = [] then None else Some t),
             analysis_id = uuid,
             analysisTimestamp = now\<rparr>
      in (this\<lparr>analyses := Map_set uuid faceAnalysis (analyses this)\<rparr>, faceAnalysis))"

text \<open>
  \<open>Array.from(this.analyses.values()).sort((a, b) => b.analysisTimestamp.getTime() -
  a.analysisTimestamp.getTime()).slice(0, limit)\<close>, with \<open>limit = 10\<close> when the
  argument is left out. The sort is stable and puts the newest first.
\<close>

definition MemStorage_getFaceAnalyses :: "MemStorage \<Rightarrow> JSNumber option \<Rightarrow> FaceAnalysis list" where
  "MemStorage_getFaceAnalyses this limit =
     slice0 (sort_key (\<lambda>a. - analysisTimestamp a) (map snd (analyses this)))
       (case limit of None \<Rightarrow> Num 10 | Some l \<Rightarrow> l)"

definition MemStorage_getFaceAnalysis :: "MemStorage \<Rightarrow> string \<Rightarrow> FaceAnalysis option" where
  "MemStorage_getFaceAnalysis this ident = map_of (analyses this) ident"

text \<open>
  \<open>interface IStorage\<close>, the part the analysis routes call. Each method returns a
  promise: \<open>Inl message\<close> is a rejection with an error of that message, \<open>Inr\<close> the
  value, with the new state of the backend where the method writes; a call that rejects
  leaves the state as it was. \<open>DbStorage\<close>, over the database driver, is another
  value of this type.
\<close>

record 's IStorage =
  createFaceAnalysis :: "'s \<Rightarrow> InsertFaceAnalysis \<Rightarrow> string + ('s \<times> FaceAnalysis)"
  getFaceAnalyses :: "'s \<Rightarrow> JSNumber option \<Rightarrow> string + FaceAnalysis list"
  getFaceAnalysis :: "'s \<Rightarrow> string \<Rightarrow> string + FaceAnalysis option"

definition memStorage :: "string \<Rightarrow> int \<Rightarrow> MemStorage IStorage" where
  "memStorage uuid now =
     \<lparr>createFaceAnalysis =
        (\<lambda>this analysis. Inr (MemStorage_createFaceAnalysis uuid now this analysis)),
      getFaceAnalyses = (\<lambda>this limit. Inr (MemStorage_getFaceAnalyses this limit)),
      getFaceAnalysis = (\<lambda>this ident. Inr (MemStorage_getFaceAnalysis this ident))\<rparr>"

section \<open>server/routes.ts: registerRoutes\<close>

text \<open>
  What a handler sends: \<open>res.status(n).json(...)\<close>, and status 200 where no status is
  set. The bodies are an analysis, a list of analyses, or \<open>{error: message}\<close>.
\<close>

datatype Json = AnalysisJson FaceAnalysis | AnalysesJson "FaceAnalysis list" | ErrorJson string

record Response =
  status :: nat
  json :: Json

text \<open>
  \<open>try { body } catch (error) { handler }\<close>. The result of a route is
  \<open>Inr\<close> of what it sent, or \<open>Inl\<close> of an error that left the handler uncaught.
\<close>

definition try_catch :: "string + 'a \<Rightarrow> (string \<Rightarrow> string + 'a) \<Rightarrow> string + 'a" where
  "try_catch body handler = (case body of Inl message \<Rightarrow> handler message | Inr v \<Rightarrow> Inr v)"

text \<open>
  \<open>app.post("/api/analyses")\<close>. \<open>insertFaceAnalysisSchema.parse\<close> is the schema
  check of the validation library: it is taken as the parameter \<open>parse\<close>, which
  returns the data or throws (\<open>Inl\<close>) with a message.
\<close>

definition post_api_analyses ::
  "('b \<Rightarrow> string + InsertFaceAnalysis) \<Rightarrow> 's IStorage \<Rightarrow> 's \<Rightarrow> 'b \<Rightarrow> string + ('s \<times> Response)" where
  "post_api_analyses parse storage st body =
     try_catch
       (case parse body of
          Inl message \<Rightarrow> Inl message
        | Inr data \<Rightarrow>
            (case createFaceAnalysis storage st data of
               Inl message \<Rightarrow> Inl message
             | Inr (st', analysis) \<Rightarrow> Inr (st', \<lparr>status = 200, json = AnalysisJson analysis\<rparr>)))
       (\<lambda>message. Inr (st, \<lparr>status = 400, json = ErrorJson message\<rparr>))"

text \<open>
  \<open>app.get("/api/analyses")\<close>:
  \<open>req.query.limit ? parseInt(req.query.limit as string) : 10\<close>. A missing parameter
  is \<open>undefined\<close> and an empty one is the empty string; both are falsy.
\<close>

definition get_api_analyses :: "'s IStorage \<Rightarrow> 's \<Rightarrow> string option \<Rightarrow> string + Response" where
  "get_api_analyses storage st query_limit =
     try_catch
       (let limit = (case query_limit of
                       None \<Rightarrow> Num 10
                     | Some l \<Rightarrow> if l = [] then Num 10 else parseInt l)
        in case getFaceAnalyses storage st (Some limit) of
             Inl message \<Rightarrow> Inl message
           | Inr as \<Rightarrow> Inr \<lparr>status = 200, json = AnalysesJson as\<rparr>)
       (\<lambda>message. Inr \<lparr>status = 500, json = ErrorJson message\<rparr>)"

text \<open>\<open>app.get("/api/analyses/:id")\<close>.\<close>

definition get_api_analyses_id :: "'s IStorage \<Rightarrow> 's \<Rightarrow> string \<Rightarrow> string + Response" where
  "get_api_analyses_id storage st ident =
     try_catch
       (case getFaceAnalysis storage st ident of
          Inl message \<Rightarrow> Inl message
        | Inr None \<Rightarrow> Inr \<lparr>status = 404, json = ErrorJson ''Analysis not found''\<rparr>
        | Inr (Some analysis) \<Rightarrow> Inr \<lparr>status = 200, json = AnalysisJson analysis\<rparr>)
       (\<lambda>message. Inr \<lparr>status = 500, json = ErrorJson message\<rparr>)"

section \<open>Example inputs\<close>

text \<open>
  A 512 x 512 image (upscale factor 2, detection canvas 1024 x 1024) with one face, and
  a model that finds ages 20, 30 and 40 with gender probabilities 0.8, 0.9 and 0.7 on
  the three crops of that face (told apart by their widths 240, 300 and 380).
\<close>

definition example_image :: HTMLImageElement where
  "example_image =
     \<lparr>naturalWidth = 512, naturalHeight = 512, img_width = 512, img_height = 512\<rparr>"

definition example_detection :: Detection where
  "example_detection =
     \<lparr>detection_box = \<lparr>box_x = 200, box_y = 120, box_width = 200, box_height = 240\<rparr>,
      detection_age = 334 / 10,
      detection_gender = female,
      genderProbability = Some (93 / 100),
      landmarks_positions =
        [\<lparr>point_x = 250, point_y = 260\<rparr>, \<lparr>point_x = 302, point_y = 200\<rparr>]\<rparr>"

definition crop_detection :: "number \<Rightarrow> Gender \<Rightarrow> number \<Rightarrow> Detection" where
  "crop_detection a g p =
     \<lparr>detection_box = \<lparr>box_x = 20, box_y = 20, box_width = 150, box_height = 180\<rparr>,
      detection_age = a,
      detection_gender = g,
      genderProbability = Some p,
      landmarks_positions = []\<rparr>"

definition example_env :: Environment where
  "example_env =
     \<lparr>isLoaded = True,
      getContext = True,
      detectAllFaces = Resolved [example_detection],
      detectSingleFace =
        (\<lambda>c. if crop_w c = 240 then Resolved (Some (crop_detection 20 male (8 / 10)))
             else if crop_w c = 300 then Resolved (Some (crop_detection 30 female (9 / 10)))
             else Resolved (Some (crop_detection 40 female (7 / 10))))\<rparr>"

definition example_preds :: "Pred option list" where
  "example_preds =
     [Some \<lparr>p_age = 20, p_gender = male, p_genderProbability = 8 / 10\<rparr>,
      Some \<lparr>p_age = 30, p_gender = female, p_genderProbability = 9 / 10\<rparr>,
      Some \<lparr>p_age = 40, p_gender = female, p_genderProbability = 7 / 10\<rparr>]"

definition example_refined :: FaceDetectionResult where
  "example_refined =
     \<lparr>face_id = ''face-1'',
      box = \<lparr>box_x = 100, box_y = 60, box_width = 100, box_height = 120\<rparr>,
      age = 30, ageConfidence = 90, gender = male, genderConfidence = 80,
      landmarks = Some [\<lparr>point_x = 125, point_y = 130\<rparr>, \<lparr>point_x = 151, point_y = 100\<rparr>]\<rparr>"

text \<open>The same image with a model that finds no face on any crop.\<close>

definition no_face_env :: Environment where
  "no_face_env = example_env\<lparr>detectSingleFace := (\<lambda>c. Resolved None)\<rparr>"

definition example_unrefined :: FaceDetectionResult where
  "example_unrefined =
     \<lparr>face_id = ''face-1'',
      box = \<lparr>box_x = 100, box_y = 60, box_width = 100, box_height = 120\<rparr>,
      age = 33, ageConfidence = 88, gender = female, genderConfidence = 93,
      landmarks = Some [\<lparr>point_x = 125, point_y = 130\<rparr>, \<lparr>point_x = 151, point_y = 100\<rparr>]\<rparr>"

text \<open>
  Three faces with age confidence 88 and gender confidences 93, 93 and 92: their halves
  are 90.5, 90.5 and 90.
\<close>

definition example_faces :: "FaceDetectionResult list" where
  "example_faces =
     [example_unrefined\<lparr>genderConfidence := 93\<rparr>,
      example_unrefined\<lparr>genderConfidence := 93\<rparr>,
      example_unrefined\<lparr>genderConfidence := 92\<rparr>]"

text \<open>
  A 1024 x 1024 image (upscale factor 1) with a face box 102 wide whose right edge is
  the right edge of the canvas.
\<close>

definition edge_image :: HTMLImageElement where
  "edge_image =
     \<lparr>naturalWidth = 1024, naturalHeight = 1024, img_width = 1024, img_height = 1024\<rparr>"

definition edge_detection :: Detection where
  "edge_detection =
     \<lparr>detection_box = \<lparr>box_x = 922, box_y = 100, box_width = 102, box_height = 102\<rparr>,
      detection_age = 30,
      detection_gender = male,
      genderProbability = Some (9 / 10),
      landmarks_positions = []\<rparr>"

text \<open>A request body that the schema refuses, one that it accepts, and a store with one record.\<close>

definition example_insert :: InsertFaceAnalysis where
  "example_insert =
     \<lparr>imageFileName = ''group.jpg'',
      imageDimensions = \<lparr>dim_width = 512, dim_height = 512\<rparr>,
      detectedFaces = [example_refined],
      processingTime = Some ''1.2s''\<rparr>"

definition example_parse :: "string \<Rightarrow> string + InsertFaceAnalysis" where
  "example_parse body = (if body = ''{}'' then Inl ''Required'' else Inr example_insert)"

definition example_analysis :: FaceAnalysis where
  "example_analysis =
     \<lparr>imageFileName = ''group.jpg'',
      imageDimensions = \<lparr>dim_width = 512, dim_height = 512\<rparr>,
      detectedFaces = [example_refined],
      processingTime = Some ''1.2s'',
      analysis_id = ''id-1'',
      analysisTimestamp = 1000\<rparr>"

definition example_store :: MemStorage where
  "example_store = \<lparr>analyses = [(''id-1'', example_analysis)]\<rparr>"

section \<open>Helper facts\<close>

lemma foldl_add_sum_list:
  "foldl (\<lambda>s p. s + f p) (a::real) xs = a + sum_list (map f xs)"
  by (induction xs arbitrary: a) (simp_all add: add.assoc)

lemma Math_round_of_int [simp]: "Math_round (of_int k) = of_int k"
proof -
  have "\<lfloor>(of_int k :: real) + 1 / 2\<rfloor> = k" by linarith
  then show ?thesis by (simp add: Math_round_def)
qed

lemma Math_round_mono: "a \<le> b \<Longrightarrow> Math_round a \<le> Math_round b"
  unfolding Math_round_def by (simp add: floor_mono)

lemma Math_round_numeral [simp]: "Math_round (numeral n) = numeral n"
  using Math_round_of_int [of "numeral n"] by simp

lemma ageConfidence_curve_bounds:
  "70 \<le> ageConfidence_curve a \<and> ageConfidence_curve a \<le> 90"
  unfolding ageConfidence_curve_def by (simp add: min_le_iff_disj)

lemma Promise_all_length: "Promise_all ps = Resolved vs \<Longrightarrow> length vs = length ps"
proof (induction ps arbitrary: vs)
  case Nil
  then show ?case by simp
next
  case (Cons p ps)
  then show ?case
    by (cases p) (auto split: Promise.splits)
qed

lemma preds_length: "preds env cv r = Resolved ps \<Longrightarrow> length ps = 3"
  by (auto simp: preds_def crops_def dest: Promise_all_length)

lemma initialResults_length [simp]: "length (initialResults invS detections) = length detections"
  by (simp add: initialResults_def)

lemma initialResults_nth:
  "i < length detections \<Longrightarrow>
     initialResults invS detections ! i = initialResult invS i (detections ! i)"
  by (simp add: initialResults_def nth_enumerate_eq)

lemma ensembleResults_Resolved:
  "ensembleResults env cv rs = Resolved out \<Longrightarrow>
     length out = length rs \<and>
     (\<forall>i<length rs. \<exists>ps. preds env cv (rs ! i) = Resolved ps \<and> out ! i = ensembleResult (rs ! i) ps)"
proof (induction rs arbitrary: out)
  case Nil
  then show ?case by simp
next
  case (Cons r rs)
  from Cons.prems obtain ps out' where
    ps: "preds env cv r = Resolved ps" and
    rest: "ensembleResults env cv rs = Resolved out'" and
    out: "out = ensembleResult r ps # out'"
    by (auto split: Promise.splits)
  from Cons.IH [OF rest] have
    len: "length out' = length rs" and
    nth: "\<forall>i<length rs. \<exists>ps. preds env cv (rs ! i) = Resolved ps \<and> out' ! i = ensembleResult (rs ! i) ps"
    by simp_all
  show ?case
  proof (intro conjI allI impI)
    show "length out = length (r # rs)" using out len by simp
  next
    fix i assume "i < length (r # rs)"
    then show "\<exists>ps. preds env cv ((r # rs) ! i) = Resolved ps \<and> out ! i = ensembleResult ((r # rs) ! i) ps"
      using ps out nth by (cases i) auto
  qed
qed

lemma detectFaces_ensemble_Inr:
  assumes "detectFaces env imageElement True = Inr out"
    and "detectAllFaces env = Resolved detections"
  shows "ensembleResults env (canvas imageElement)
           (initialResults (invScale imageElement) detections) = Resolved out"
  using assms by (auto simp: detectFaces_def Let_def split: if_splits Promise.splits)

lemma detectFaces_ensemble_nth:
  assumes "detectFaces env imageElement True = Inr out"
    and "detectAllFaces env = Resolved detections"
    and "i < length detections"
  shows "length out = length detections"
    and "\<exists>ps. preds env (canvas imageElement)
                 (initialResults (invScale imageElement) detections ! i) = Resolved ps
              \<and> out ! i = ensembleResult (initialResults (invScale imageElement) detections ! i) ps"
  using ensembleResults_Resolved [OF detectFaces_ensemble_Inr [OF assms(1,2)]] assms(3)
  by simp_all

lemma detectFaces_plain_Inr:
  assumes "detectFaces env imageElement False = Inr out"
    and "detectAllFaces env = Resolved detections"
  shows "out = map finalize (initialResults (invScale imageElement) detections)"
  using assms by (auto simp: detectFaces_def Let_def split: if_splits Promise.splits)

lemma detectFaces_Inr_detections:
  "detectFaces env imageElement useEnsemble = Inr out \<Longrightarrow>
     isLoaded env \<and> getContext env \<and> (\<exists>detections. detectAllFaces env = Resolved detections)"
  by (auto simp: detectFaces_def split: if_splits Promise.splits)

lemma ensembleResult_frame:
  "face_id (ensembleResult r ps) = r_id r \<and> box (ensembleResult r ps) = r_box r
   \<and> landmarks (ensembleResult r ps) = Some (r_landmarks r)"
  by (simp add: ensembleResult_def Let_def)

lemma ensembleResult_fallback:
  "filter_Boolean ps = [] \<Longrightarrow> ensembleResult r ps = finalize r"
  by (simp add: ensembleResult_def finalize_def)

lemma ensembleResult_average:
  "filter_Boolean ps \<noteq> [] \<Longrightarrow>
     ensembleResult r ps =
       \<lparr>face_id = r_id r,
        box = r_box r,
        age = Math_round (sum_list (map p_age (filter_Boolean ps)) / real (length (filter_Boolean ps))),
        ageConfidence = Math_round (ageConfidence_curve
          (sum_list (map p_age (filter_Boolean ps)) / real (length (filter_Boolean ps)))),
        gender = p_gender (hd (filter_Boolean ps)),
        genderConfidence = Math_round
          (sum_list (map p_genderProbability (filter_Boolean ps)) / real (length (filter_Boolean ps)) * 100),
        landmarks = Some (r_landmarks r)\<rparr>"
  by (simp add: ensembleResult_def Let_def foldl_add_sum_list hd_conv_nth)

lemma detectFaces_box_landmarks:
  assumes "detectFaces env imageElement useEnsemble = Inr out"
    and "detectAllFaces env = Resolved detections"
    and "i < length detections"
    and "r = initialResults (invScale imageElement) detections ! i"
  shows "length out = length detections \<and> face_id (out ! i) = r_id r
    \<and> box (out ! i) = r_box r \<and> landmarks (out ! i) = Some (r_landmarks r)"
proof (cases useEnsemble)
  case True
  with assms detectFaces_ensemble_nth [of env imageElement out detections i]
  show ?thesis by (auto simp: ensembleResult_frame)
next
  case False
  with assms detectFaces_plain_Inr [of env imageElement out detections]
  show ?thesis by (simp add: finalize_def)
qed

lemma map_of_Map_set: "map_of (Map_set k v m) k = Some v"
  by (induction m) auto

lemma slice0_NaN: "slice0 xs NaN = []"
  by (simp add: slice0_def)

lemma scale_ge_1: "1 \<le> scale imageElement"
  by (simp add: scale_def)

lemma scale_example_image: "scale example_image = 2"
  by (simp add: scale_def example_image_def targetWidth_def naturalW_def)

lemma canvas_example_image:
  "canvas example_image = \<lparr>canvas_width = 1024, canvas_height = 1024\<rparr>"
  by (simp add: canvas_def scale_example_image) (simp add: example_image_def naturalW_def naturalH_def)

lemma initialResults_example:
  "initialResults (invScale example_image) [example_detection] =
     [\<lparr>r_id = ''face-1'',
       r_box = \<lparr>box_x = 100, box_y = 60, box_width = 100, box_height = 120\<rparr>,
       rawBox = \<lparr>box_x = 200, box_y = 120, box_width = 200, box_height = 240\<rparr>,
       r_age = 334 / 10, r_ageConfidence = 88, r_gender = female, r_genderConfidence = 93,
       r_landmarks = [\<lparr>point_x = 125, point_y = 130\<rparr>, \<lparr>point_x = 151, point_y = 100\<rparr>]\<rparr>]"
  apply (simp add: initialResults_def invScale_def scale_example_image initialResult_def
      example_detection_def Let_def string_of_nat.simps ageConfidence_curve_def)
  apply (simp add: Math_round_def)
  done

lemma crops_example:
  "crops \<lparr>canvas_width = 1024, canvas_height = 1024\<rparr>
     (initialResults (invScale example_image) [example_detection] ! 0) =
     [\<lparr>crop_x = 180, crop_y = 96, crop_w = 240, crop_h = 288\<rparr>,
      \<lparr>crop_x = 150, crop_y = 60, crop_w = 300, crop_h = 360\<rparr>,
      \<lparr>crop_x = 110, crop_y = 12, crop_w = 380, crop_h = 456\<rparr>]"
  by (simp add: initialResults_example crops_def crop_def crop_clamped_def Let_def)

lemma preds_example:
  "preds example_env (canvas example_image)
     (initialResults (invScale example_image) [example_detection] ! 0) = Resolved example_preds"
  by (simp add: preds_def canvas_example_image crops_example example_env_def pred_of_def
      crop_detection_def example_preds_def)

lemma preds_no_face:
  "preds no_face_env (canvas example_image)
     (initialResults (invScale example_image) [example_detection] ! 0) = Resolved [None, None, None]"
  by (simp add: preds_def canvas_example_image crops_example no_face_env_def example_env_def)

lemma detectFaces_example:
  "detectFaces example_env example_image True = Inr [example_refined]"
proof -
  have "ensembleResult (initialResults (invScale example_image) [example_detection] ! 0) example_preds
      = example_refined"
    by (simp add: initialResults_example ensembleResult_def example_preds_def Let_def
        example_refined_def ageConfidence_curve_def)
  moreover have "detectAllFaces example_env = Resolved [example_detection]"
    "isLoaded example_env" "getContext example_env"
    by (simp_all add: example_env_def)
  ultimately show ?thesis
    using preds_example
    by (simp add: detectFaces_def initialResults_example)
qed

lemma detectFaces_no_face:
  "detectFaces no_face_env example_image True = Inr [example_unrefined]"
proof -
  have "ensembleResult (initialResults (invScale example_image) [example_detection] ! 0)
      [None, None, None] = example_unrefined"
    by (simp add: initialResults_example ensembleResult_def example_unrefined_def)
      (simp add: Math_round_def)
  moreover have "detectAllFaces no_face_env = Resolved [example_detection]"
    "isLoaded no_face_env" "getContext no_face_env"
    by (simp_all add: no_face_env_def example_env_def)
  ultimately show ?thesis
    using preds_no_face
    by (simp add: detectFaces_def initialResults_example)
qed

lemma calculateAnalysisStats_earlier_empty:
  "avgConfidence (calculateAnalysisStats_earlier []) = 0"
  by (simp add: calculateAnalysisStats_earlier_def)

lemma Math_round_bounds: "x - 1 / 2 < Math_round x \<and> Math_round x \<le> x + 1 / 2"
  unfolding Math_round_def by linarith

lemma Math_round_nonneg: "0 \<le> x \<Longrightarrow> 0 \<le> Math_round x"
  unfolding Math_round_def by simp

text \<open>
  What the clamps of the crop do give: the unrounded rectangle starts at or after 0 and
  ends within the canvas, and the rounded one starts at or after 0 and ends at most one
  pixel beyond it.
\<close>

lemma crop_clamped_within:
  assumes "crop_clamped cv r pad = (cx, cy, cw, ch)"
  shows "0 \<le> cx \<and> 0 \<le> cy \<and> cx + cw \<le> canvas_width cv \<and> cy + ch \<le> canvas_height cv"
  using assms by (auto simp: crop_clamped_def Let_def)

lemma crop_rounded_within_one:
  "0 \<le> crop_x (crop cv r pad) \<and> 0 \<le> crop_y (crop cv r pad)
   \<and> crop_x (crop cv r pad) + crop_w (crop cv r pad) \<le> canvas_width cv + 1
   \<and> crop_y (crop cv r pad) + crop_h (crop cv r pad) \<le> canvas_height cv + 1"
proof -
  obtain cx cy cw ch where c: "crop_clamped cv r pad = (cx, cy, cw, ch)"
    by (cases "crop_clamped cv r pad") auto
  from crop_clamped_within [OF c]
  have b: "0 \<le> cx" "0 \<le> cy" "cx + cw \<le> canvas_width cv" "cy + ch \<le> canvas_height cv"
    by simp_all
  have "Math_round cx + Math_round cw \<le> cx + cw + 1"
    using Math_round_bounds [of cx] Math_round_bounds [of cw] by linarith
  moreover have "Math_round cy + Math_round ch \<le> cy + ch + 1"
    using Math_round_bounds [of cy] Math_round_bounds [of ch] by linarith
  ultimately show ?thesis
    using b by (simp add: crop_def c Math_round_nonneg)
qed

lemmas parseInt_defs = parseInt_def isWhiteSpace_def isRadixDigit_def digitValue_def

section \<open>The age-confidence curve\<close>

text \<open>
  C3, as the specification states it, fails: at age 0 the curve gives
  \<open>90 - 0.5 * 30 = 75\<close>, which the clamp leaves alone, so the derived confidence is 75
  and not 70.
\<close>

theorem C3_age_zero_counterexample:
  "Math_round (ageConfidence_curve 0) = 75 \<and> Math_round (ageConfidence_curve 0) \<noteq> 70"
  by (simp add: ageConfidence_curve_def)

text \<open>
  C3, amended: for every age the derived age confidence is
  \<open>round (clamp (90 - 0.5 * |age - 30|, 70, 95))\<close>; age 30 yields 90, age 90 yields 70
  and age 0 yields 75; for every age the result is at least 70 and at most 95 (it is in
  fact at most 90).
\<close>

theorem C3_age_confidence_curve:
  "Math_round (ageConfidence_curve a)
     = of_int \<lfloor>min 95 (max 70 (90 - (1 / 2) * \<bar>a - 30\<bar>)) + 1 / 2\<rfloor>
   \<and> Math_round (ageConfidence_curve 30) = 90
   \<and> Math_round (ageConfidence_curve 90) = 70
   \<and> Math_round (ageConfidence_curve 0) = 75
   \<and> 70 \<le> Math_round (ageConfidence_curve a)
   \<and> Math_round (ageConfidence_curve a) \<le> 95"
proof -
  have curve: "Math_round (ageConfidence_curve a)
     = of_int \<lfloor>min 95 (max 70 (90 - (1 / 2) * \<bar>a - 30\<bar>)) + 1 / 2\<rfloor>"
    by (simp add: Math_round_def ageConfidence_curve_def mult.commute)
  have a30: "Math_round (ageConfidence_curve 30) = 90"
    by (simp add: ageConfidence_curve_def)
  have a90: "Math_round (ageConfidence_curve 90) = 70"
    by (simp add: ageConfidence_curve_def)
  have a0: "Math_round (ageConfidence_curve 0) = 75"
    by (simp add: ageConfidence_curve_def)
  have "Math_round 70 \<le> Math_round (ageConfidence_curve a)"
    by (rule Math_round_mono) (simp add: ageConfidence_curve_bounds)
  then have lo: "70 \<le> Math_round (ageConfidence_curve a)"
    by simp
  have "Math_round (ageConfidence_curve a) \<le> Math_round 90"
    by (rule Math_round_mono) (simp add: ageConfidence_curve_bounds)
  then have hi: "Math_round (ageConfidence_curve a) \<le> 95"
    by simp
  from curve a30 a90 a0 lo hi show ?thesis by blast
qed

section \<open>The aggregated average confidence\<close>

text \<open>
  C7, as stated for every copy of \<open>calculateAnalysisStats\<close> that it cites, fails on
  the earlier copy in \<open>face-api-utils.ts\<close>: that copy adds the unrounded halves and
  rounds only their mean. For three faces with halves 90.5, 90.5 and 90 it returns
  \<open>round (271 / 3) = 90\<close>, where the rounded mean of the rounded halves 91, 91 and 90
  is \<open>round (272 / 3) = 91\<close>.
\<close>

theorem C7_earlier_copy_counterexample:
  "avgConfidence (calculateAnalysisStats_earlier example_faces) = 90
   \<and> Math_round (sum_list (map combined example_faces) / real (length example_faces)) = 91
   \<and> avgConfidence (calculateAnalysisStats_earlier example_faces)
       \<noteq> Math_round (sum_list (map combined example_faces) / real (length example_faces))"
  by (simp add: calculateAnalysisStats_earlier_def combined_def example_faces_def
      example_unrefined_def Math_round_def)

text \<open>
  C7, amended: for every list of faces the average confidence of the current
  \<open>calculateAnalysisStats\<close> is the rounded mean, over all faces, of
  \<open>round ((ageConfidence + genderConfidence) / 2)\<close>; the earlier copy of the function
  returns the rounded mean of the unrounded \<open>(ageConfidence + genderConfidence) / 2\<close>;
  and for the empty list both return 0.
\<close>

theorem C7_average_confidence:
  "avgConfidence (calculateAnalysisStats faces) =
     (if faces = [] then 0
      else Math_round
        (sum_list (map (\<lambda>face. Math_round ((ageConfidence face + genderConfidence face) / 2))
           faces) / real (length faces)))
   \<and> avgConfidence (calculateAnalysisStats []) = 0
   \<and> avgConfidence (calculateAnalysisStats_earlier faces) =
     (if faces = [] then 0
      else Math_round
        (sum_list (map (\<lambda>face. (ageConfidence face + genderConfidence face) / 2) faces)
          / real (length faces)))
   \<and> avgConfidence (calculateAnalysisStats_earlier []) = 0"
proof -
  have current: "avgConfidence (calculateAnalysisStats faces) =
     (if faces = [] then 0
      else Math_round
        (sum_list (map (\<lambda>face. Math_round ((ageConfidence face + genderConfidence face) / 2))
           faces) / real (length faces)))"
    by (simp add: calculateAnalysisStats_def Let_def foldl_add_sum_list combined_def)
  have earlier: "avgConfidence (calculateAnalysisStats_earlier faces) =
     (if faces = [] then 0
      else Math_round
        (sum_list (map (\<lambda>face. (ageConfidence face + genderConfidence face) / 2) faces)
          / real (length faces)))"
    by (simp add: calculateAnalysisStats_earlier_def Let_def foldl_add_sum_list)
  have "avgConfidence (calculateAnalysisStats []) = 0"
    by (simp add: calculateAnalysisStats_def)
  with current earlier calculateAnalysisStats_earlier_empty show ?thesis
    by simp
qed

section \<open>The ensemble average\<close>

text \<open>
  C1: for a detected face (the \<open>i\<close>-th of a call that returns), when at least one of
  the three crops gives a prediction, the refined age is the rounded arithmetic mean of
  the valid crops' ages, the refined gender confidence is the rounded mean of their
  gender probabilities times 100, and the refined gender is the label of the first valid
  crop. For crop ages 20, 30, 40 and gender probabilities 0.8, 0.9, 0.7 the age is 30,
  the gender confidence is 80 and the label is the first crop's.
\<close>

theorem C1_ensemble_average:
  assumes "detectFaces env imageElement True = Inr out"
    and "detectAllFaces env = Resolved detections"
    and "i < length detections"
    and "preds env (canvas imageElement)
           (initialResults (invScale imageElement) detections ! i) = Resolved ps"
    and "valid = filter_Boolean ps"
    and "valid \<noteq> []"
  shows "age (out ! i) = Math_round (sum_list (map p_age valid) / real (length valid))
    \<and> genderConfidence (out ! i)
        = Math_round (sum_list (map p_genderProbability valid) / real (length valid) * 100)
    \<and> gender (out ! i) = p_gender (hd valid)
    \<and> age (ensembleResult r
          [Some \<lparr>p_age = 20, p_gender = g1, p_genderProbability = 8 / 10\<rparr>,
           Some \<lparr>p_age = 30, p_gender = g2, p_genderProbability = 9 / 10\<rparr>,
           Some \<lparr>p_age = 40, p_gender = g3, p_genderProbability = 7 / 10\<rparr>]) = 30
    \<and> genderConfidence (ensembleResult r
          [Some \<lparr>p_age = 20, p_gender = g1, p_genderProbability = 8 / 10\<rparr>,
           Some \<lparr>p_age = 30, p_gender = g2, p_genderProbability = 9 / 10\<rparr>,
           Some \<lparr>p_age = 40, p_gender = g3, p_genderProbability = 7 / 10\<rparr>]) = 80
    \<and> gender (ensembleResult r
          [Some \<lparr>p_age = 20, p_gender = g1, p_genderProbability = 8 / 10\<rparr>,
           Some \<lparr>p_age = 30, p_gender = g2, p_genderProbability = 9 / 10\<rparr>,
           Some \<lparr>p_age = 40, p_gender = g3, p_genderProbability = 7 / 10\<rparr>]) = g1"
proof -
  from detectFaces_ensemble_nth(2) [OF assms(1-3)] assms(4)
  have "out ! i = ensembleResult (initialResults (invScale imageElement) detections ! i) ps"
    by auto
  with assms(5,6) have general:
    "age (out ! i) = Math_round (sum_list (map p_age valid) / real (length valid))"
    "genderConfidence (out ! i)
       = Math_round (sum_list (map p_genderProbability valid) / real (length valid) * 100)"
    "gender (out ! i) = p_gender (hd valid)"
    by (simp_all add: ensembleResult_average)
  have example:
    "ensembleResult r
          [Some \<lparr>p_age = 20, p_gender = g1, p_genderProbability = 8 / 10\<rparr>,
           Some \<lparr>p_age = 30, p_gender = g2, p_genderProbability = 9 / 10\<rparr>,
           Some \<lparr>p_age = 40, p_gender = g3, p_genderProbability = 7 / 10\<rparr>]
       = \<lparr>face_id = r_id r, box = r_box r, age = 30, ageConfidence = 90, gender = g1,
          genderConfidence = 80, landmarks = Some (r_landmarks r)\<rparr>"
    by (simp add: ensembleResult_def Let_def ageConfidence_curve_def)
  show ?thesis
    unfolding example using general by simp
qed

theorem C1_ensemble_average_witness:
  "detectFaces example_env example_image True = Inr [example_refined]
   \<and> detectAllFaces example_env = Resolved [example_detection]
   \<and> preds example_env (canvas example_image)
        (initialResults (invScale example_image) [example_detection] ! 0) = Resolved example_preds
   \<and> filter_Boolean example_preds \<noteq> []
   \<and> age ([example_refined] ! 0) = 30
   \<and> genderConfidence ([example_refined] ! 0) = 80
   \<and> gender ([example_refined] ! 0) = male"
proof -
  have h1: "detectFaces example_env example_image True = Inr [example_refined]"
    by (rule detectFaces_example)
  have h2: "detectAllFaces example_env = Resolved [example_detection]"
    by (simp add: example_env_def)
  have h3: "0 < length [example_detection]"
    by simp
  have h4: "preds example_env (canvas example_image)
      (initialResults (invScale example_image) [example_detection] ! 0) = Resolved example_preds"
    by (rule preds_example)
  have h5: "filter_Boolean example_preds
      = [\<lparr>p_age = 20, p_gender = male, p_genderProbability = 8 / 10\<rparr>,
         \<lparr>p_age = 30, p_gender = female, p_genderProbability = 9 / 10\<rparr>,
         \<lparr>p_age = 40, p_gender = female, p_genderProbability = 7 / 10\<rparr>]"
    by (simp add: example_preds_def)
  have h6: "filter_Boolean example_preds \<noteq> []"
    by (simp add: h5)
  from C1_ensemble_average [OF h1 h2 h3 h4 refl h6]
  have "age ([example_refined] ! 0) = 30 \<and> genderConfidence ([example_refined] ! 0) = 80
      \<and> gender ([example_refined] ! 0) = male"
    by (simp add: h5 Math_round_def)
  with h1 h2 h4 h6 show ?thesis by simp
qed

section \<open>The ensemble fallback\<close>

text \<open>
  C2: for a detected face, if all three crops give no detection, the refined output is
  the initial unrefined detection: the same id, box, landmarks, ageConfidence, gender
  and genderConfidence, and the age rounded; it is the face that the call without the
  ensemble returns.
\<close>

theorem C2_ensemble_fallback:
  assumes "detectFaces env imageElement True = Inr out"
    and "detectAllFaces env = Resolved detections"
    and "i < length detections"
    and "r = initialResults (invScale imageElement) detections ! i"
    and "preds env (canvas imageElement) r = Resolved [None, None, None]"
  shows "face_id (out ! i) = r_id r
    \<and> box (out ! i) = r_box r
    \<and> landmarks (out ! i) = Some (r_landmarks r)
    \<and> ageConfidence (out ! i) = r_ageConfidence r
    \<and> gender (out ! i) = r_gender r
    \<and> genderConfidence (out ! i) = r_genderConfidence r
    \<and> age (out ! i) = Math_round (r_age r)
    \<and> (\<exists>plain. detectFaces env imageElement False = Inr plain
          \<and> length plain = length out \<and> out ! i = plain ! i)"
proof -
  from detectFaces_ensemble_nth [OF assms(1-3)] assms(4,5)
  have len: "length out = length detections" and "out ! i = ensembleResult r [None, None, None]"
    by auto
  then have fin: "out ! i = finalize r"
    by (simp add: ensembleResult_fallback)
  from detectFaces_Inr_detections [OF assms(1)] assms(2)
  have plain: "detectFaces env imageElement False
      = Inr (map finalize (initialResults (invScale imageElement) detections))"
    by (simp add: detectFaces_def)
  have "map finalize (initialResults (invScale imageElement) detections) ! i = finalize r"
    using assms(3,4) by simp
  with plain fin len
  have "\<exists>plain. detectFaces env imageElement False = Inr plain
          \<and> length plain = length out \<and> out ! i = plain ! i"
    by simp
  with fin show ?thesis
    by (simp add: finalize_def)
qed

theorem C2_ensemble_fallback_witness:
  "detectFaces no_face_env example_image True = Inr [example_unrefined]
   \<and> detectAllFaces no_face_env = Resolved [example_detection]
   \<and> preds no_face_env (canvas example_image)
        (initialResults (invScale example_image) [example_detection] ! 0)
        = Resolved [None, None, None]
   \<and> age ([example_unrefined] ! 0) = Math_round (334 / 10)
   \<and> ageConfidence ([example_unrefined] ! 0) = 88
   \<and> genderConfidence ([example_unrefined] ! 0) = 93
   \<and> detectFaces no_face_env example_image False = Inr [example_unrefined]"
proof -
  have h1: "detectFaces no_face_env example_image True = Inr [example_unrefined]"
    by (rule detectFaces_no_face)
  have h2: "detectAllFaces no_face_env = Resolved [example_detection]"
    by (simp add: no_face_env_def example_env_def)
  have h3: "0 < length [example_detection]"
    by simp
  have h5: "preds no_face_env (canvas example_image)
      (initialResults (invScale example_image) [example_detection] ! 0)
      = Resolved [None, None, None]"
    by (rule preds_no_face)
  from C2_ensemble_fallback [OF h1 h2 h3 refl h5]
  have "age ([example_unrefined] ! 0) = Math_round (334 / 10)
      \<and> ageConfidence ([example_unrefined] ! 0) = 88
      \<and> genderConfidence ([example_unrefined] ! 0) = 93
      \<and> detectFaces no_face_env example_image False = Inr [example_unrefined]"
    by (auto simp: initialResults_example length_Suc_conv)
  with h1 h2 h5 show ?thesis by simp
qed

section \<open>The upscale factor and the way back to the original image\<close>

text \<open>
  C4: the upscale factor of the detection canvas is \<open>max (1, 1024 / width)\<close> of the
  original image width (an image that has one: a natural width of at least 1) and is
  never below 1; every box and landmark coordinate of the output is the coordinate on
  the detection canvas times the inverse of the factor; under factor 2 the output
  coordinates are exactly half the canvas coordinates (so within 1 unit of the half).
\<close>

theorem C4_upscale_and_remap:
  assumes "detectFaces env imageElement useEnsemble = Inr out"
    and "detectAllFaces env = Resolved detections"
    and "i < length detections"
    and "b = detection_box (detections ! i)"
  shows "(0 < naturalWidth imageElement \<longrightarrow>
            scale imageElement = max 1 (1024 / real (naturalWidth imageElement)))
    \<and> 1 \<le> scale imageElement
    \<and> box (out ! i) =
         \<lparr>box_x = box_x b * (1 / scale imageElement),
          box_y = box_y b * (1 / scale imageElement),
          box_width = box_width b * (1 / scale imageElement),
          box_height = box_height b * (1 / scale imageElement)\<rparr>
    \<and> landmarks (out ! i) =
         Some (map (\<lambda>point. \<lparr>point_x = point_x point * (1 / scale imageElement),
                              point_y = point_y point * (1 / scale imageElement)\<rparr>)
                 (landmarks_positions (detections ! i)))
    \<and> (scale imageElement = 2 \<longrightarrow>
          box (out ! i) =
            \<lparr>box_x = box_x b / 2, box_y = box_y b / 2,
             box_width = box_width b / 2, box_height = box_height b / 2\<rparr>
          \<and> landmarks (out ! i) =
              Some (map (\<lambda>point. \<lparr>point_x = point_x point / 2, point_y = point_y point / 2\<rparr>)
                      (landmarks_positions (detections ! i)))
          \<and> \<bar>box_x (box (out ! i)) - box_x b / 2\<bar> \<le> 1
          \<and> \<bar>box_y (box (out ! i)) - box_y b / 2\<bar> \<le> 1
          \<and> \<bar>box_width (box (out ! i)) - box_width b / 2\<bar> \<le> 1
          \<and> \<bar>box_height (box (out ! i)) - box_height b / 2\<bar> \<le> 1)"
proof -
  have factor: "0 < naturalWidth imageElement \<longrightarrow>
      scale imageElement = max 1 (1024 / real (naturalWidth imageElement))"
  proof
    assume "0 < naturalWidth imageElement"
    then have "naturalW imageElement = real (naturalWidth imageElement)"
      and "1 \<le> real (naturalWidth imageElement)"
      by (simp_all add: naturalW_def)
    then show "scale imageElement = max 1 (1024 / real (naturalWidth imageElement))"
      by (simp add: scale_def targetWidth_def max_absorb2)
  qed
  from detectFaces_box_landmarks [OF assms(1-3) refl]
  have bx: "box (out ! i) = r_box (initialResults (invScale imageElement) detections ! i)"
    and lm: "landmarks (out ! i)
      = Some (r_landmarks (initialResults (invScale imageElement) detections ! i))"
    by simp_all
  have r: "initialResults (invScale imageElement) detections ! i
      = initialResult (invScale imageElement) i (detections ! i)"
    using assms(3) by (rule initialResults_nth)
  have bx': "box (out ! i) =
         \<lparr>box_x = box_x b * (1 / scale imageElement),
          box_y = box_y b * (1 / scale imageElement),
          box_width = box_width b * (1 / scale imageElement),
          box_height = box_height b * (1 / scale imageElement)\<rparr>"
    unfolding bx r using assms(4) by (simp add: initialResult_def Let_def invScale_def)
  have lm': "landmarks (out ! i) =
         Some (map (\<lambda>point. \<lparr>point_x = point_x point * (1 / scale imageElement),
                              point_y = point_y point * (1 / scale imageElement)\<rparr>)
                 (landmarks_positions (detections ! i)))"
    unfolding lm r by (simp add: initialResult_def Let_def invScale_def)
  have half: "scale imageElement = 2 \<longrightarrow>
          box (out ! i) =
            \<lparr>box_x = box_x b / 2, box_y = box_y b / 2,
             box_width = box_width b / 2, box_height = box_height b / 2\<rparr>
          \<and> landmarks (out ! i) =
              Some (map (\<lambda>point. \<lparr>point_x = point_x point / 2, point_y = point_y point / 2\<rparr>)
                      (landmarks_positions (detections ! i)))
          \<and> \<bar>box_x (box (out ! i)) - box_x b / 2\<bar> \<le> 1
          \<and> \<bar>box_y (box (out ! i)) - box_y b / 2\<bar> \<le> 1
          \<and> \<bar>box_width (box (out ! i)) - box_width b / 2\<bar> \<le> 1
          \<and> \<bar>box_height (box (out ! i)) - box_height b / 2\<bar> \<le> 1"
    unfolding bx' lm' by simp
  from factor scale_ge_1 bx' lm' half show ?thesis by blast
qed

theorem C4_upscale_and_remap_witness:
  "detectFaces example_env example_image True = Inr [example_refined]
   \<and> detectAllFaces example_env = Resolved [example_detection]
   \<and> 0 < naturalWidth example_image
   \<and> scale example_image = 2
   \<and> scale example_image = max 1 (1024 / real (naturalWidth example_image))
   \<and> detection_box ([example_detection] ! 0)
        = \<lparr>box_x = 200, box_y = 120, box_width = 200, box_height = 240\<rparr>
   \<and> box ([example_refined] ! 0)
        = \<lparr>box_x = 100, box_y = 60, box_width = 100, box_height = 120\<rparr>
   \<and> landmarks ([example_refined] ! 0)
        = Some [\<lparr>point_x = 125, point_y = 130\<rparr>, \<lparr>point_x = 151, point_y = 100\<rparr>]"
proof -
  have h1: "detectFaces example_env example_image True = Inr [example_refined]"
    by (rule detectFaces_example)
  have h2: "detectAllFaces example_env = Resolved [example_detection]"
    by (simp add: example_env_def)
  have h3: "0 < length [example_detection]"
    by simp
  have w: "0 < naturalWidth example_image"
    by (simp add: example_image_def)
  have d: "detection_box example_detection
        = \<lparr>box_x = 200, box_y = 120, box_width = 200, box_height = 240\<rparr>"
    "landmarks_positions example_detection
        = [\<lparr>point_x = 250, point_y = 260\<rparr>, \<lparr>point_x = 302, point_y = 200\<rparr>]"
    by (simp_all add: example_detection_def)
  from C4_upscale_and_remap [OF h1 h2 h3 refl] w scale_example_image
  have "scale example_image = max 1 (1024 / real (naturalWidth example_image))
    \<and> box ([example_refined] ! 0)
        = \<lparr>box_x = 100, box_y = 60, box_width = 100, box_height = 120\<rparr>
    \<and> landmarks ([example_refined] ! 0)
        = Some [\<lparr>point_x = 125, point_y = 130\<rparr>, \<lparr>point_x = 151, point_y = 100\<rparr>]"
    by (simp add: d)
  with h1 h2 w d scale_example_image show ?thesis by simp
qed

section \<open>The crop rectangles\<close>

text \<open>
  C5 does not hold of the code once the rectangle is rounded. The face box
  \<open>x = 922, width = 102\<close> lies within the 1024 wide canvas; for padding 0.25 the
  clamped rectangle is \<open>cx = 896.5, cw = 127.5\<close>, which ends at 1024, and the two
  numbers are rounded up separately to 897 and 128: the rounded crop ends at 1025.
\<close>

theorem C5_rounded_crop_exceeds_canvas:
  "canvas edge_image = \<lparr>canvas_width = 1024, canvas_height = 1024\<rparr>
   \<and> rawBox (initialResult (invScale edge_image) 0 edge_detection)
        = \<lparr>box_x = 922, box_y = 100, box_width = 102, box_height = 102\<rparr>
   \<and> crops (canvas edge_image) (initialResult (invScale edge_image) 0 edge_detection)
        = [\<lparr>crop_x = 912, crop_y = 90, crop_w = 112, crop_h = 122\<rparr>,
           \<lparr>crop_x = 897, crop_y = 75, crop_w = 128, crop_h = 153\<rparr>,
           \<lparr>crop_x = 876, crop_y = 54, crop_w = 148, crop_h = 194\<rparr>]
   \<and> crop_x (crops (canvas edge_image) (initialResult (invScale edge_image) 0 edge_detection) ! 1)
      + crop_w (crops (canvas edge_image) (initialResult (invScale edge_image) 0 edge_detection) ! 1)
      > canvas_width (canvas edge_image)"
proof -
  have sc: "scale edge_image = 1"
    by (simp add: scale_def edge_image_def targetWidth_def naturalW_def)
  have cv: "canvas edge_image = \<lparr>canvas_width = 1024, canvas_height = 1024\<rparr>"
    by (simp add: canvas_def sc) (simp add: edge_image_def naturalW_def naturalH_def)
  have rb: "rawBox (initialResult (invScale edge_image) 0 edge_detection)
        = \<lparr>box_x = 922, box_y = 100, box_width = 102, box_height = 102\<rparr>"
    by (simp add: initialResult_def Let_def edge_detection_def)
  have cr: "crops \<lparr>canvas_width = 1024, canvas_height = 1024\<rparr>
          (initialResult (invScale edge_image) 0 edge_detection)
        = [\<lparr>crop_x = 912, crop_y = 90, crop_w = 112, crop_h = 122\<rparr>,
           \<lparr>crop_x = 897, crop_y = 75, crop_w = 128, crop_h = 153\<rparr>,
           \<lparr>crop_x = 876, crop_y = 54, crop_w = 148, crop_h = 194\<rparr>]"
    unfolding crops_def crop_def crop_clamped_def rb by (simp add: Let_def Math_round_def)
  show ?thesis
    by (simp add: cv cr rb)
qed

section \<open>What the refinement leaves alone\<close>

text \<open>
  C6: for every detected face the ensemble changes only age, ageConfidence, gender and
  genderConfidence: the output is the unrefined face with these four fields replaced,
  and its id, box and landmarks are those of the initial detection on the full image,
  in the pixel coordinates of the original image (the canvas coordinates times the
  inverse upscale factor), whatever the crops return.
\<close>

theorem C6_refinement_frame:
  assumes "detectFaces env imageElement True = Inr out"
    and "detectAllFaces env = Resolved detections"
    and "i < length detections"
    and "r = initialResults (invScale imageElement) detections ! i"
  shows "length out = length detections
    \<and> out ! i = (finalize r)
         \<lparr>age := age (out ! i), ageConfidence := ageConfidence (out ! i),
          gender := gender (out ! i), genderConfidence := genderConfidence (out ! i)\<rparr>
    \<and> face_id (out ! i) = r_id r
    \<and> box (out ! i) = r_box r
    \<and> landmarks (out ! i) = Some (r_landmarks r)
    \<and> detectFaces env imageElement False
         = Inr (map finalize (initialResults (invScale imageElement) detections))
    \<and> rawBox r = detection_box (detections ! i)
    \<and> r_box r =
         \<lparr>box_x = box_x (rawBox r) * invScale imageElement,
          box_y = box_y (rawBox r) * invScale imageElement,
          box_width = box_width (rawBox r) * invScale imageElement,
          box_height = box_height (rawBox r) * invScale imageElement\<rparr>
    \<and> r_landmarks r =
         map (\<lambda>point. \<lparr>point_x = point_x point * invScale imageElement,
                        point_y = point_y point * invScale imageElement\<rparr>)
           (landmarks_positions (detections ! i))"
proof -
  from detectFaces_box_landmarks [OF assms]
  have len: "length out = length detections" and fid: "face_id (out ! i) = r_id r"
    and bx: "box (out ! i) = r_box r" and lm: "landmarks (out ! i) = Some (r_landmarks r)"
    by simp_all
  from fid bx lm have frame: "out ! i = (finalize r)
         \<lparr>age := age (out ! i), ageConfidence := ageConfidence (out ! i),
          gender := gender (out ! i), genderConfidence := genderConfidence (out ! i)\<rparr>"
    by (simp add: finalize_def)
  from detectFaces_Inr_detections [OF assms(1)] assms(2)
  have plain: "detectFaces env imageElement False
      = Inr (map finalize (initialResults (invScale imageElement) detections))"
    by (simp add: detectFaces_def)
  have r: "r = initialResult (invScale imageElement) i (detections ! i)"
    using assms(3,4) by (simp add: initialResults_nth)
  have raw: "rawBox r = detection_box (detections ! i)"
    and rbox: "r_box r =
         \<lparr>box_x = box_x (rawBox r) * invScale imageElement,
          box_y = box_y (rawBox r) * invScale imageElement,
          box_width = box_width (rawBox r) * invScale imageElement,
          box_height = box_height (rawBox r) * invScale imageElement\<rparr>"
    and rlm: "r_landmarks r =
         map (\<lambda>point. \<lparr>point_x = point_x point * invScale imageElement,
                        point_y = point_y point * invScale imageElement\<rparr>)
           (landmarks_positions (detections ! i))"
    unfolding r by (simp_all add: initialResult_def Let_def)
  from len frame fid bx lm plain raw rbox rlm show ?thesis by blast
qed

theorem C6_refinement_frame_witness:
  "detectFaces example_env example_image True = Inr [example_refined]
   \<and> detectAllFaces example_env = Resolved [example_detection]
   \<and> detectFaces example_env example_image False = Inr [example_unrefined]
   \<and> face_id example_refined = face_id example_unrefined
   \<and> box example_refined = box example_unrefined
   \<and> landmarks example_refined = landmarks example_unrefined
   \<and> box example_refined = \<lparr>box_x = 100, box_y = 60, box_width = 100, box_height = 120\<rparr>"
proof -
  have h1: "detectFaces example_env example_image True = Inr [example_refined]"
    by (rule detectFaces_example)
  have h2: "detectAllFaces example_env = Resolved [example_detection]"
    by (simp add: example_env_def)
  have h3: "0 < length [example_detection]"
    by simp
  have fin: "finalize (initialResults (invScale example_image) [example_detection] ! 0)
      = example_unrefined"
    by (simp add: initialResults_example finalize_def example_unrefined_def)
      (simp add: Math_round_def)
  from C6_refinement_frame [OF h1 h2 h3 refl]
  have "detectFaces example_env example_image False
        = Inr (map finalize (initialResults (invScale example_image) [example_detection]))"
    and "box ([example_refined] ! 0)
        = r_box (initialResults (invScale example_image) [example_detection] ! 0)"
    by simp_all
  then have "detectFaces example_env example_image False = Inr [example_unrefined]
      \<and> box ([example_refined] ! 0)
          = \<lparr>box_x = 100, box_y = 60, box_width = 100, box_height = 120\<rparr>"
    using fin by (simp add: initialResults_example)
  moreover have "face_id example_refined = face_id example_unrefined"
    "box example_refined = box example_unrefined"
    "landmarks example_refined = landmarks example_unrefined"
    by (simp_all add: example_refined_def example_unrefined_def)
  ultimately show ?thesis using h1 h2 by simp
qed

section \<open>POST /api/analyses\<close>

text \<open>
  C8: when the schema check refuses the body, the response has status 400 with the
  error message as its JSON body and the store is unchanged, with any backend; when the
  check accepts the body and the backend creates the record, that record is the JSON
  body of the response (status 200). With the in-memory backend the creation always
  succeeds: the response carries the created record, which has the data's fields and
  is in the store under its id.
\<close>

theorem C8_post_validation:
  "(parse body = Inl message \<longrightarrow>
      post_api_analyses parse storage st body
        = Inr (st, \<lparr>status = 400, json = ErrorJson message\<rparr>))
   \<and> (parse body = Inr data \<and> createFaceAnalysis storage st data = Inr (st', analysis) \<longrightarrow>
      post_api_analyses parse storage st body
        = Inr (st', \<lparr>status = 200, json = AnalysisJson analysis\<rparr>))
   \<and> (parse body = Inr data
        \<and> MemStorage_createFaceAnalysis uuid now this data = (this', faceAnalysis) \<longrightarrow>
      post_api_analyses parse (memStorage uuid now) this body
        = Inr (this', \<lparr>status = 200, json = AnalysisJson faceAnalysis\<rparr>)
      \<and> MemStorage_getFaceAnalysis this' (analysis_id faceAnalysis) = Some faceAnalysis
      \<and> analysis_id faceAnalysis = uuid
      \<and> imageFileName faceAnalysis = imageFileName data
      \<and> imageDimensions faceAnalysis = imageDimensions data
      \<and> detectedFaces faceAnalysis = detectedFaces data)"
proof (intro conjI impI)
  assume "parse body = Inl message"
  then show "post_api_analyses parse storage st body
      = Inr (st, \<lparr>status = 400, json = ErrorJson message\<rparr>)"
    by (simp add: post_api_analyses_def try_catch_def)
next
  assume "parse body = Inr data \<and> createFaceAnalysis storage st data = Inr (st', analysis)"
  then show "post_api_analyses parse storage st body
      = Inr (st', \<lparr>status = 200, json = AnalysisJson analysis\<rparr>)"
    by (simp add: post_api_analyses_def try_catch_def)
next
  assume a: "parse body = Inr data
      \<and> MemStorage_createFaceAnalysis uuid now this data = (this', faceAnalysis)"
  then show "post_api_analyses parse (memStorage uuid now) this body
      = Inr (this', \<lparr>status = 200, json = AnalysisJson faceAnalysis\<rparr>)"
    by (simp add: post_api_analyses_def try_catch_def memStorage_def)
  from a have this': "analyses this' = Map_set uuid faceAnalysis (analyses this)"
    and fa: "analysis_id faceAnalysis = uuid"
      "imageFileName faceAnalysis = imageFileName data"
      "imageDimensions faceAnalysis = imageDimensions data"
      "detectedFaces faceAnalysis = detectedFaces data"
    by (auto simp: MemStorage_createFaceAnalysis_def Let_def)
  from this' fa(1) show "MemStorage_getFaceAnalysis this' (analysis_id faceAnalysis) = Some faceAnalysis"
    by (simp add: MemStorage_getFaceAnalysis_def map_of_Map_set)
  from fa show "analysis_id faceAnalysis = uuid"
    "imageFileName faceAnalysis = imageFileName data"
    "imageDimensions faceAnalysis = imageDimensions data"
    "detectedFaces faceAnalysis = detectedFaces data"
    by simp_all
qed

theorem C8_post_validation_witness:
  "example_parse ''{}'' = Inl ''Required''
   \<and> post_api_analyses example_parse (memStorage ''id-2'' 2000) example_store ''{}''
        = Inr (example_store, \<lparr>status = 400, json = ErrorJson ''Required''\<rparr>)
   \<and> example_parse ''{...}'' = Inr example_insert
   \<and> MemStorage_createFaceAnalysis ''id-2'' 2000 example_store example_insert
        = (\<lparr>analyses = [(''id-1'', example_analysis),
                         (''id-2'', example_analysis\<lparr>analysis_id := ''id-2'', analysisTimestamp := 2000\<rparr>)]\<rparr>,
           example_analysis\<lparr>analysis_id := ''id-2'', analysisTimestamp := 2000\<rparr>)
   \<and> createFaceAnalysis (memStorage ''id-2'' 2000) example_store example_insert
        = Inr (\<lparr>analyses = [(''id-1'', example_analysis),
                         (''id-2'', example_analysis\<lparr>analysis_id := ''id-2'', analysisTimestamp := 2000\<rparr>)]\<rparr>,
           example_analysis\<lparr>analysis_id := ''id-2'', analysisTimestamp := 2000\<rparr>)
   \<and> post_api_analyses example_parse (memStorage ''id-2'' 2000) example_store ''{...}''
        = Inr (\<lparr>analyses = [(''id-1'', example_analysis),
                         (''id-2'', example_analysis\<lparr>analysis_id := ''id-2'', analysisTimestamp := 2000\<rparr>)]\<rparr>,
               \<lparr>status = 200,
                json = AnalysisJson
                  (example_analysis\<lparr>analysis_id := ''id-2'', analysisTimestamp := 2000\<rparr>)\<rparr>)"
proof -
  have p1: "example_parse ''{}'' = Inl ''Required''"
    by (simp add: example_parse_def)
  have p2: "example_parse ''{...}'' = Inr example_insert"
    by (simp add: example_parse_def)
  have c: "MemStorage_createFaceAnalysis ''id-2'' 2000 example_store example_insert
        = (\<lparr>analyses = [(''id-1'', example_analysis),
                         (''id-2'', example_analysis\<lparr>analysis_id := ''id-2'', analysisTimestamp := 2000\<rparr>)]\<rparr>,
           example_analysis\<lparr>analysis_id := ''id-2'', analysisTimestamp := 2000\<rparr>)"
    by (simp add: MemStorage_createFaceAnalysis_def Let_def example_store_def example_insert_def
        example_analysis_def)
  have c': "createFaceAnalysis (memStorage ''id-2'' 2000) example_store example_insert
        = Inr (\<lparr>analyses = [(''id-1'', example_analysis),
                         (''id-2'', example_analysis\<lparr>analysis_id := ''id-2'', analysisTimestamp := 2000\<rparr>)]\<rparr>,
           example_analysis\<lparr>analysis_id := ''id-2'', analysisTimestamp := 2000\<rparr>)"
    by (simp add: memStorage_def c)
  from C8_post_validation [of example_parse "''{}''" "''Required''"
      "memStorage ''id-2'' 2000" example_store] p1
  have r1: "post_api_analyses example_parse (memStorage ''id-2'' 2000) example_store ''{}''
        = Inr (example_store, \<lparr>status = 400, json = ErrorJson ''Required''\<rparr>)"
    by simp
  from C8_post_validation [of example_parse "''{...}''" _ "memStorage ''id-2'' 2000"
      example_store example_insert] p2 c'
  have r2: "post_api_analyses example_parse (memStorage ''id-2'' 2000) example_store ''{...}''
        = Inr (\<lparr>analyses = [(''id-1'', example_analysis),
                         (''id-2'', example_analysis\<lparr>analysis_id := ''id-2'', analysisTimestamp := 2000\<rparr>)]\<rparr>,
               \<lparr>status = 200,
                json = AnalysisJson
                  (example_analysis\<lparr>analysis_id := ''id-2'', analysisTimestamp := 2000\<rparr>)\<rparr>)"
    by blast
  from p1 r1 p2 c c' r2 show ?thesis by blast
qed

section \<open>GET /api/analyses/:id\<close>

text \<open>
  C9: if a record with the id exists it is returned as JSON (status 200); otherwise the
  response is status 404 with the body \<open>{error: "Analysis not found"}\<close>; and no error
  leaves the handler for any id: a backend call that rejects is answered with status
  500. With the in-memory backend the lookup never rejects, so the response is one of
  the first two.
\<close>

theorem C9_get_by_id:
  "(getFaceAnalysis storage st ident = Inr (Some analysis) \<longrightarrow>
      get_api_analyses_id storage st ident
        = Inr \<lparr>status = 200, json = AnalysisJson analysis\<rparr>)
   \<and> (getFaceAnalysis storage st ident = Inr None \<longrightarrow>
      get_api_analyses_id storage st ident
        = Inr \<lparr>status = 404, json = ErrorJson ''Analysis not found''\<rparr>)
   \<and> (getFaceAnalysis storage st ident = Inl message \<longrightarrow>
      get_api_analyses_id storage st ident
        = Inr \<lparr>status = 500, json = ErrorJson message\<rparr>)
   \<and> (\<exists>response. get_api_analyses_id storage st ident = Inr response)
   \<and> (MemStorage_getFaceAnalysis this ident = Some faceAnalysis \<longrightarrow>
      get_api_analyses_id (memStorage uuid now) this ident
        = Inr \<lparr>status = 200, json = AnalysisJson faceAnalysis\<rparr>)
   \<and> (MemStorage_getFaceAnalysis this ident = None \<longrightarrow>
      get_api_analyses_id (memStorage uuid now) this ident
        = Inr \<lparr>status = 404, json = ErrorJson ''Analysis not found''\<rparr>)"
proof -
  have total: "\<exists>response. get_api_analyses_id storage st ident = Inr response"
    by (cases "getFaceAnalysis storage st ident")
      (auto simp: get_api_analyses_id_def try_catch_def split: option.splits)
  show ?thesis
    using total
    by (simp add: get_api_analyses_id_def try_catch_def memStorage_def)
qed

theorem C9_get_by_id_witness:
  "MemStorage_getFaceAnalysis example_store ''id-1'' = Some example_analysis
   \<and> get_api_analyses_id (memStorage ''id-2'' 2000) example_store ''id-1''
        = Inr \<lparr>status = 200, json = AnalysisJson example_analysis\<rparr>
   \<and> MemStorage_getFaceAnalysis example_store ''id-9'' = None
   \<and> get_api_analyses_id (memStorage ''id-2'' 2000) example_store ''id-9''
        = Inr \<lparr>status = 404, json = ErrorJson ''Analysis not found''\<rparr>
   \<and> getFaceAnalysis
        ((memStorage ''id-2'' 2000)\<lparr>getFaceAnalysis := (\<lambda>this ident. Inl ''Database not available'')\<rparr>)
        example_store ''id-1'' = Inl ''Database not available''
   \<and> get_api_analyses_id
        ((memStorage ''id-2'' 2000)\<lparr>getFaceAnalysis := (\<lambda>this ident. Inl ''Database not available'')\<rparr>)
        example_store ''id-1''
        = Inr \<lparr>status = 500, json = ErrorJson ''Database not available''\<rparr>"
proof -
  have g1: "MemStorage_getFaceAnalysis example_store ''id-1'' = Some example_analysis"
    by (simp add: MemStorage_getFaceAnalysis_def example_store_def)
  have g2: "MemStorage_getFaceAnalysis example_store ''id-9'' = None"
    by (simp add: MemStorage_getFaceAnalysis_def example_store_def)
  have g3: "getFaceAnalysis
        ((memStorage ''id-2'' 2000)\<lparr>getFaceAnalysis := (\<lambda>this ident. Inl ''Database not available'')\<rparr>)
        example_store ''id-1'' = Inl ''Database not available''"
    by simp
  from C9_get_by_id [of "memStorage ''id-2'' 2000" example_store "''id-1''" example_analysis
      "''none''" example_store example_analysis "''id-2''" 2000] g1
  have r1: "get_api_analyses_id (memStorage ''id-2'' 2000) example_store ''id-1''
        = Inr \<lparr>status = 200, json = AnalysisJson example_analysis\<rparr>"
    by blast
  from C9_get_by_id [of "memStorage ''id-2'' 2000" example_store "''id-9''" example_analysis
      "''none''" example_store example_analysis "''id-2''" 2000] g2
  have r2: "get_api_analyses_id (memStorage ''id-2'' 2000) example_store ''id-9''
        = Inr \<lparr>status = 404, json = ErrorJson ''Analysis not found''\<rparr>"
    by blast
  from C9_get_by_id [of
      "(memStorage ''id-2'' 2000)\<lparr>getFaceAnalysis := (\<lambda>this ident. Inl ''Database not available'')\<rparr>"
      example_store "''id-1''" example_analysis "''Database not available''"
      example_store example_analysis "''id-2''" 2000] g3
  have r3: "get_api_analyses_id
        ((memStorage ''id-2'' 2000)\<lparr>getFaceAnalysis := (\<lambda>this ident. Inl ''Database not available'')\<rparr>)
        example_store ''id-1''
        = Inr \<lparr>status = 500, json = ErrorJson ''Database not available''\<rparr>"
    by blast
  from g1 r1 g2 r2 g3 r3 show ?thesis by blast
qed

section \<open>GET /api/analyses with a limit that is not a number\<close>

text \<open>
  C10, as stated, fails for a \<open>limit\<close> parameter that is present and empty
  (\<open>?limit=\<close>): the empty string does not parse to a number, but it is falsy, so the
  route never calls \<open>parseInt\<close> and asks for the default of 10 records; the store's
  record is returned.
\<close>

theorem C10_empty_limit_counterexample:
  "parseInt [] = NaN
   \<and> get_api_analyses (memStorage ''id-2'' 2000) example_store (Some [])
        = Inr \<lparr>status = 200, json = AnalysesJson [example_analysis]\<rparr>
   \<and> get_api_analyses (memStorage ''id-2'' 2000) example_store (Some [])
        \<noteq> Inr \<lparr>status = 200, json = AnalysesJson []\<rparr>"
  by (simp add: parseInt_defs get_api_analyses_def try_catch_def memStorage_def
      MemStorage_getFaceAnalyses_def example_store_def slice0_def Let_def)

text \<open>
  C10, amended: for every request whose \<open>limit\<close> parameter is present and not empty
  and does not parse to a number (\<open>parseInt\<close> yields \<open>NaN\<close>), the in-memory
  backend returns the empty list and not the 10 most recent records: the \<open>NaN\<close>
  limit is passed on to \<open>slice\<close>, which selects nothing.
\<close>

theorem C10_nan_limit:
  assumes "query_limit = Some l"
    and "l \<noteq> []"
    and "parseInt l = NaN"
  shows "get_api_analyses (memStorage uuid now) this query_limit
           = Inr \<lparr>status = 200, json = AnalysesJson []\<rparr>
    \<and> MemStorage_getFaceAnalyses this (Some (parseInt l)) = []"
  using assms
  by (simp add: get_api_analyses_def try_catch_def memStorage_def MemStorage_getFaceAnalyses_def
      slice0_NaN)

theorem C10_nan_limit_witness:
  "''abc'' \<noteq> [] \<and> parseInt ''abc'' = NaN
   \<and> get_api_analyses (memStorage ''id-2'' 2000) example_store (Some ''abc'')
        = Inr \<lparr>status = 200, json = AnalysesJson []\<rparr>
   \<and> get_api_analyses (memStorage ''id-2'' 2000) example_store None
        = Inr \<lparr>status = 200, json = AnalysesJson [example_analysis]\<rparr>"
proof -
  have h2: "''abc'' \<noteq> []"
    by simp
  have h3: "parseInt ''abc'' = NaN"
    by (simp add: parseInt_defs)
  have d: "get_api_analyses (memStorage ''id-2'' 2000) example_store None
        = Inr \<lparr>status = 200, json = AnalysesJson [example_analysis]\<rparr>"
    by (simp add: get_api_analyses_def try_catch_def memStorage_def
        MemStorage_getFaceAnalyses_def example_store_def slice0_def Let_def)
  from C10_nan_limit [OF refl h2 h3, of "''id-2''" 2000 example_store] h2 h3 d
  show ?thesis by simp
qed

end
